theory Spec2Isabelle
  imports Main "HOL-Library.Sublist" "HOL-Library.Word"
begin

section \<open>Kishu metadata store: commits, branches and HEAD\<close>

text \<open>
  The development embeds the storage layer of Kishu (\<^verbatim>\<open>kishu/storage/commit.py\<close>,
  \<^verbatim>\<open>kishu/storage/branch.py\<close>) and the checkout entry point of
  \<^verbatim>\<open>kishu/jupyterint.py\<close>. Python exceptions are values of the type \<open>error\<close>;
  a method that mutates the database or the head file returns the new store next to its
  result.
\<close>

subsection \<open>Errors\<close>

datatype error =
    NoCommitWithID string
  | AmbiguousCommitID string "string list"
  | BranchConflictError string
  | BranchNotFoundError string
  | MissingCommitEntryError string
  | IntegrityError
  | HeadDecodeError
  | NodeTooLarge nat nat

text \<open>
  \<open>NoCommitWithID\<close> and \<open>AmbiguousCommitID\<close> are the two \<^verbatim>\<open>ValueError\<close>s of
  \<^verbatim>\<open>disambiguate_commit\<close>; \<open>IntegrityError\<close> is sqlite's answer to a second row with
  the same primary key; \<open>HeadDecodeError\<close> stands for every exception of reading the head
  file that \<^verbatim>\<open>get_head\<close> does not catch; \<open>NodeTooLarge\<close> is the \<^verbatim>\<open>ValueError\<close> of
  a commit node that does not fit its slot, with the two sizes of its message.
\<close>

subsection \<open>Tables with a primary key\<close>

text \<open>
  Every table of the database has two columns, the first one declared
  \<^verbatim>\<open>primary key\<close>. A table is the list of its rows in insertion order.
\<close>

type_synonym bytes = "8 word list"

type_synonym ('k, 'v) table = "('k \<times> 'v) list"

definition sql_count :: "('k, 'v) table \<Rightarrow> 'k \<Rightarrow> nat" where
  \<comment> \<open>\<^verbatim>\<open>select count(*) from T where key = ?\<close>\<close>
  "sql_count rows k = length (filter (\<lambda>r. fst r = k) rows)"

definition sql_select :: "('k, 'v) table \<Rightarrow> 'k \<Rightarrow> ('k \<times> 'v) list" where
  \<comment> \<open>\<^verbatim>\<open>select * from T where key = ?\<close>\<close>
  "sql_select rows k = filter (\<lambda>r. fst r = k) rows"

definition sql_insert :: "('k, 'v) table \<Rightarrow> 'k \<times> 'v \<Rightarrow> error + ('k, 'v) table" where
  \<comment> \<open>\<^verbatim>\<open>insert into T values (?, ?)\<close>: refused when the key is taken\<close>
  "sql_insert rows r =
     (if fst r \<in> fst ` set rows then Inl IntegrityError else Inr (rows @ [r]))"

definition sql_insert_or_replace :: "('k, 'v) table \<Rightarrow> 'k \<times> 'v \<Rightarrow> ('k, 'v) table" where
  \<comment> \<open>\<^verbatim>\<open>insert or replace into T values (?, ?)\<close>\<close>
  "sql_insert_or_replace rows r = filter (\<lambda>x. fst x \<noteq> fst r) rows @ [r]"

definition sql_delete :: "('k, 'v) table \<Rightarrow> 'k \<Rightarrow> ('k, 'v) table" where
  \<comment> \<open>\<^verbatim>\<open>delete from T where key = ?\<close>\<close>
  "sql_delete rows k = filter (\<lambda>r. fst r \<noteq> k) rows"

definition sql_update_key :: "('k, 'v) table \<Rightarrow> 'k \<Rightarrow> 'k \<Rightarrow> error + ('k, 'v) table" where
  \<comment> \<open>\<^verbatim>\<open>update T set key = new where key = old\<close>: refused when it would give two rows
      the same key\<close>
  "sql_update_key rows new old =
     (if old \<in> fst ` set rows \<and> new \<noteq> old \<and> new \<in> fst ` set rows then Inl IntegrityError
      else Inr (map (\<lambda>r. if fst r = old then (new, snd r) else r) rows))"

definition primary_key :: "('k, 'v) table \<Rightarrow> bool" where
  \<comment> \<open>what the \<^verbatim>\<open>primary key\<close> declaration maintains\<close>
  "primary_key rows = distinct (map fst rows)"

subsection \<open>The commit entry and the store\<close>

datatype CommitEntryKind = unspecified | jupyter | manual

record CommitEntry =
  commit_id :: string
  kind :: CommitEntryKind
  message :: string
  active_vses_string :: "string option"
  code_version :: int
  varset_version :: int
  execution_count :: "int option"

text \<open>
  The remaining fields of the dataclass (notebook text, restore plan, timings) are not read
  by the storage layer; a \<open>CommitEntry\<close> carries them in the record's extension.
\<close>

record HeadBranch =
  branch_name :: "string option"
  commit_id :: "string option"

text \<open>
  The head file, by what \<^verbatim>\<open>open\<close> and \<^verbatim>\<open>HeadBranch.from_json\<close> make of it:
  no file (\<^verbatim>\<open>FileNotFoundError\<close>), text that is not JSON
  (\<^verbatim>\<open>json.decoder.JSONDecodeError\<close>), contents on which reading raises any other
  exception, or the JSON of a head as \<^verbatim>\<open>to_json\<close> writes it. The subsection on the head
  file on disk gives the file behind it (\<open>head_file_of\<close>).
\<close>

datatype head_file = FileNotFound | NotJson | ForeignJson | HeadJson HeadBranch

record kishu_store =
  commit_entry :: "(string, bytes) table"
  session_state :: "(string, bytes) table"
  branch :: "(string, string) table"
  head_path :: head_file

subsection \<open>\<^verbatim>\<open>KishuBranch\<close>\<close>

definition get_head :: "head_file \<Rightarrow> error + HeadBranch" where
  "get_head f =
     (case f of
        FileNotFound \<Rightarrow> Inr \<lparr>branch_name = None, commit_id = None\<rparr>
      | NotJson \<Rightarrow> Inr \<lparr>branch_name = None, commit_id = None\<rparr>
      | ForeignJson \<Rightarrow> Inl HeadDecodeError
      | HeadJson h \<Rightarrow> Inr h)"

definition update_head ::
  "'a kishu_store_scheme \<Rightarrow> string option \<Rightarrow> string option \<Rightarrow> bool
     \<Rightarrow> (error + HeadBranch) \<times> 'a kishu_store_scheme" where
  \<comment> \<open>arguments: \<^verbatim>\<open>branch_name\<close>, \<^verbatim>\<open>commit_id\<close>, \<^verbatim>\<open>is_detach\<close>\<close>
  "update_head st new_branch new_commit is_detach =
     (case get_head (head_path st) of
        Inl e \<Rightarrow> (Inl e, st)
      | Inr head0 \<Rightarrow>
          (let head1 =
                 (if is_detach then head0\<lparr>branch_name := None\<rparr>
                  else (case new_branch of
                          Some b \<Rightarrow> head0\<lparr>branch_name := Some b\<rparr>
                        | None \<Rightarrow> head0));
               head2 =
                 (case new_commit of
                    Some c \<Rightarrow> head1\<lparr>commit_id := Some c\<rparr>
                  | None \<Rightarrow> head1)
           in (Inr head2, st\<lparr>head_path := HeadJson head2\<rparr>)))"

definition upsert_branch ::
  "'a kishu_store_scheme \<Rightarrow> string \<Rightarrow> string \<Rightarrow> 'a kishu_store_scheme" where
  "upsert_branch st b c = st\<lparr>branch := sql_insert_or_replace (branch st) (b, c)\<rparr>"

definition list_branch :: "'a kishu_store_scheme \<Rightarrow> (string \<times> string) list" where
  "list_branch st = branch st"

definition get_branch :: "'a kishu_store_scheme \<Rightarrow> string \<Rightarrow> (string \<times> string) list" where
  \<comment> \<open>a \<^verbatim>\<open>BranchRow\<close> is the pair of its branch name and its commit id\<close>
  "get_branch st b = sql_select (branch st) b"

definition branches_for_commit ::
  "'a kishu_store_scheme \<Rightarrow> string \<Rightarrow> (string \<times> string) list" where
  "branches_for_commit st c = filter (\<lambda>r. snd r = c) (branch st)"

definition contains_branch :: "(string, string) table \<Rightarrow> string \<Rightarrow> bool" where
  \<comment> \<open>\<^verbatim>\<open>KishuBranch._contains_branch\<close>\<close>
  "contains_branch rows b = (sql_count rows b = 1)"

definition delete_branch ::
  "'a kishu_store_scheme \<Rightarrow> string \<Rightarrow> (error + unit) \<times> 'a kishu_store_scheme" where
  "delete_branch st b =
     (case get_head (head_path st) of
        Inl e \<Rightarrow> (Inl e, st)
      | Inr head0 \<Rightarrow>
          if Some b = branch_name head0
          then (Inl (BranchConflictError ''Cannot delete the currently checked-out branch.''), st)
          else if \<not> contains_branch (branch st) b
          then (Inl (BranchNotFoundError b), st)
          else (Inr (), st\<lparr>branch := sql_delete (branch st) b\<rparr>))"

definition rename_branch ::
  "'a kishu_store_scheme \<Rightarrow> string \<Rightarrow> string \<Rightarrow> (error + unit) \<times> 'a kishu_store_scheme" where
  "rename_branch st old_name new_name =
     (if \<not> contains_branch (branch st) old_name
      then (Inl (BranchNotFoundError old_name), st)
      else if contains_branch (branch st) new_name
      then (Inl (BranchConflictError ''The provided new branch name already exists.''), st)
      else (case sql_update_key (branch st) new_name old_name of
              Inl e \<Rightarrow> (Inl e, st)
            | Inr rows \<Rightarrow>
                (let st1 = st\<lparr>branch := rows\<rparr> in
                 case get_head (head_path st1) of
                   Inl e \<Rightarrow> (Inl e, st1)
                 | Inr head0 \<Rightarrow>
                     if Some old_name = branch_name head0
                     then (case update_head st1 (Some new_name) None False of
                             (Inl e, st2) \<Rightarrow> (Inl e, st2)
                           | (Inr _, st2) \<Rightarrow> (Inr (), st2))
                     else (Inr (), st1))))"

subsection \<open>The head file on disk\<close>

text \<open>
  \<^verbatim>\<open>get_head\<close> on the file itself. The file is absent or holds bytes; \<^verbatim>\<open>open(path, "r")\<close>
  reads it as text, in a UTF-8 locale: bytes that are not UTF-8 raise
  \<^verbatim>\<open>UnicodeDecodeError\<close>, and line ends are translated to \<^verbatim>\<open>\n\<close>. A text is the list
  of its code points. \<^verbatim>\<open>HeadBranch.from_json\<close> belongs to the library
  \<^verbatim>\<open>dataclasses_json\<close> and is a parameter: it returns a head or raises, with
  \<^verbatim>\<open>JSONDecodeError\<close> on a text that is not JSON and with other exceptions on JSON it
  cannot make a head of (\<^verbatim>\<open>KeyError\<close>, \<^verbatim>\<open>AttributeError\<close>) or cannot parse within the
  recursion limit (\<^verbatim>\<open>RecursionError\<close>).
\<close>

datatype py_exception =
    FileNotFoundError
  | UnicodeDecodeError
  | JSONDecodeError
  | RecursionError
  | KeyError
  | AttributeError

type_synonym str = "nat list"

definition continuation :: "nat \<Rightarrow> bool" where
  \<comment> \<open>a continuation byte of UTF-8\<close>
  "continuation b = (128 \<le> b \<and> b \<le> 191)"

fun utf8_decode :: "nat list \<Rightarrow> str option" where
  \<comment> \<open>the strict UTF-8 decoder of Python on the values of the bytes: no overlong forms, no
      surrogates, nothing above U+10FFFF\<close>
  "utf8_decode [] = Some []"
| "utf8_decode (b0 # bs) =
     (if b0 < 128 then map_option ((#) b0) (utf8_decode bs)
      else if 194 \<le> b0 \<and> b0 \<le> 223 then
        (case bs of
           b1 # r \<Rightarrow>
             if continuation b1
             then map_option ((#) ((b0 - 192) * 64 + (b1 - 128))) (utf8_decode r)
             else None
         | _ \<Rightarrow> None)
      else if 224 \<le> b0 \<and> b0 \<le> 239 then
        (case bs of
           b1 # b2 # r \<Rightarrow>
             if (if b0 = 224 then 160 else 128) \<le> b1 \<and> b1 \<le> (if b0 = 237 then 159 else 191)
                \<and> continuation b2
             then map_option ((#) ((b0 - 224) * 4096 + (b1 - 128) * 64 + (b2 - 128)))
                    (utf8_decode r)
             else None
         | _ \<Rightarrow> None)
      else if 240 \<le> b0 \<and> b0 \<le> 244 then
        (case bs of
           b1 # b2 # b3 # r \<Rightarrow>
             if (if b0 = 240 then 144 else 128) \<le> b1 \<and> b1 \<le> (if b0 = 244 then 143 else 191)
                \<and> continuation b2 \<and> continuation b3
             then map_option
                    ((#) ((b0 - 240) * 262144 + (b1 - 128) * 4096 + (b2 - 128) * 64 + (b3 - 128)))
                    (utf8_decode r)
             else None
         | _ \<Rightarrow> None)
      else None)"

fun universal_newlines :: "bool \<Rightarrow> str \<Rightarrow> str" where
  \<comment> \<open>text mode turns \<^verbatim>\<open>\r\n\<close> and \<^verbatim>\<open>\r\<close> into \<^verbatim>\<open>\n\<close>; the flag says that the
      character before was \<^verbatim>\<open>\r\<close>\<close>
  "universal_newlines after_cr [] = []"
| "universal_newlines after_cr (c # cs) =
     (if c = 13 then 10 # universal_newlines True cs
      else if c = 10 \<and> after_cr then universal_newlines False cs
      else c # universal_newlines False cs)"

definition read_text :: "bytes option \<Rightarrow> py_exception + str" where
  \<comment> \<open>\<^verbatim>\<open>with open(self.head_path, "r") as f: json_str = f.read()\<close>\<close>
  "read_text file =
     (case file of
        None \<Rightarrow> Inl FileNotFoundError
      | Some data \<Rightarrow>
          (case utf8_decode (map unat data) of
             None \<Rightarrow> Inl UnicodeDecodeError
           | Some cps \<Rightarrow> Inr (universal_newlines False cps)))"

definition get_head_file ::
  "(str \<Rightarrow> py_exception + HeadBranch) \<Rightarrow> bytes option \<Rightarrow> py_exception + HeadBranch" where
  \<comment> \<open>\<^verbatim>\<open>KishuBranch.get_head\<close>: the body of the \<^verbatim>\<open>try\<close>, then the \<^verbatim>\<open>except\<close>
      clause for \<^verbatim>\<open>FileNotFoundError\<close> and \<^verbatim>\<open>JSONDecodeError\<close>\<close>
  "get_head_file from_json file =
     (case (case read_text file of
              Inl e \<Rightarrow> Inl e
            | Inr json_str \<Rightarrow> from_json json_str) of
        Inl e \<Rightarrow>
          if e = FileNotFoundError \<or> e = JSONDecodeError
          then Inr \<lparr>branch_name = None, commit_id = None\<rparr>
          else Inl e
      | Inr h \<Rightarrow> Inr h)"

definition head_file_of ::
  "(str \<Rightarrow> py_exception + HeadBranch) \<Rightarrow> bytes option \<Rightarrow> head_file" where
  \<comment> \<open>the file as the operations on branches see it\<close>
  "head_file_of from_json file =
     (case (case read_text file of
              Inl e \<Rightarrow> Inl e
            | Inr json_str \<Rightarrow> from_json json_str) of
        Inl e \<Rightarrow>
          if e = FileNotFoundError then FileNotFound
          else if e = JSONDecodeError then NotJson
          else ForeignJson
      | Inr h \<Rightarrow> HeadJson h)"

subsection \<open>\<^verbatim>\<open>KishuCommit\<close>\<close>

text \<open>
  sqlite's \<^verbatim>\<open>LIKE\<close> operator as \<^verbatim>\<open>keys_like\<close> uses it (no \<^verbatim>\<open>ESCAPE\<close> clause, the
  default \<^verbatim>\<open>case_sensitive_like = off\<close>): in the pattern \<^verbatim>\<open>%\<close> matches any run of
  characters, \<^verbatim>\<open>_\<close> matches exactly one character, and any other character matches
  itself, the ASCII letters without regard to case.
\<close>

definition like_fold :: "char \<Rightarrow> char" where
  \<comment> \<open>sqlite's lower-casing of the ASCII letters \<^verbatim>\<open>A\<close> .. \<^verbatim>\<open>Z\<close>\<close>
  "like_fold c =
     (let n = (of_char c :: nat) in if 65 \<le> n \<and> n \<le> 90 then char_of (n + 32) else c)"

fun sql_like :: "string \<Rightarrow> string \<Rightarrow> bool" where
  \<comment> \<open>\<open>sql_like pattern text\<close> is \<^verbatim>\<open>text LIKE pattern\<close>\<close>
  "sql_like [] [] = True"
| "sql_like [] (c # cs) = False"
| "sql_like (p # ps) [] = (p = CHR ''%'' \<and> sql_like ps [])"
| "sql_like (p # ps) (c # cs) =
     (if p = CHR ''%'' then sql_like ps (c # cs) \<or> sql_like (p # ps) cs
      else (p = CHR ''_'' \<or> like_fold p = like_fold c) \<and> sql_like ps cs)"

definition keys_like :: "'a kishu_store_scheme \<Rightarrow> string \<Rightarrow> string list" where
  \<comment> \<open>\<^verbatim>\<open>select commit_id from commit_entry where commit_id LIKE ?\<close> with the
      parameter \<^verbatim>\<open>commit_id_like + "%"\<close>\<close>
  "keys_like st commit_id_like =
     map fst (filter (\<lambda>r. sql_like (commit_id_like @ ''%'') (fst r)) (commit_entry st))"

definition getsizeof :: "bytes \<Rightarrow> nat" where
  \<comment> \<open>\<^verbatim>\<open>sys.getsizeof\<close> of a \<^verbatim>\<open>bytes\<close> object in 64-bit CPython: a header of 33
      bytes and the data\<close>
  "getsizeof b = 33 + length b"

definition store_commit ::
  "('e CommitEntry_scheme \<Rightarrow> bytes) \<Rightarrow> (string option \<Rightarrow> bytes)
     \<Rightarrow> 'a kishu_store_scheme \<Rightarrow> 'e CommitEntry_scheme
     \<Rightarrow> (error + nat) \<times> 'a kishu_store_scheme" where
  \<comment> \<open>the first two arguments are \<^verbatim>\<open>dill.dumps\<close> at the two types it is called at;
      each \<^verbatim>\<open>con.commit()\<close> makes the insert before it durable\<close>
  "store_commit dumps_entry dumps_vses st entry =
     (let commit_entry_dill = dumps_entry entry;
          session_state_dill = dumps_vses (active_vses_string entry)
      in case sql_insert (commit_entry st) (CommitEntry.commit_id entry, commit_entry_dill) of
           Inl e \<Rightarrow> (Inl e, st)
         | Inr rows1 \<Rightarrow>
             (let st1 = st\<lparr>commit_entry := rows1\<rparr> in
              case sql_insert (session_state st1) (CommitEntry.commit_id entry, session_state_dill) of
                Inl e \<Rightarrow> (Inl e, st1)
              | Inr rows2 \<Rightarrow>
                  (Inr (getsizeof (dumps_vses (active_vses_string entry))),
                   st1\<lparr>session_state := rows2\<rparr>)))"

definition get_session_state :: "'a kishu_store_scheme \<Rightarrow> string \<Rightarrow> error + bytes" where
  \<comment> \<open>the stored blob; \<^verbatim>\<open>dill.loads\<close> of it is left to the caller\<close>
  "get_session_state st cid =
     (case sql_select (session_state st) cid of
        [] \<Rightarrow> Inl (MissingCommitEntryError cid)
      | r # _ \<Rightarrow> Inr (snd r))"

subsection \<open>\<^verbatim>\<open>KishuForJupyter\<close>\<close>

definition disambiguate_commit :: "'a kishu_store_scheme \<Rightarrow> string \<Rightarrow> error + string" where
  "disambiguate_commit st cid =
     (let possible_commit_ids = keys_like st cid in
      if length possible_commit_ids = 0 then Inl (NoCommitWithID cid)
      else if cid \<in> set possible_commit_ids then Inr cid
      else if length possible_commit_ids > 1 then Inl (AmbiguousCommitID cid possible_commit_ids)
      else Inr (hd possible_commit_ids))"

text \<open>
  The session: the store, the user namespace of the kernel and the head of the commit
  graph.
\<close>

record 'v kishu_jupyter = kishu_store +
  user_ns :: "string \<rightharpoonup> 'v"
  kishu_graph_head :: string

definition checkout_namespace :: "(string \<rightharpoonup> 'v) \<Rightarrow> (string \<rightharpoonup> 'v) \<Rightarrow> (string \<rightharpoonup> 'v)" where
  \<comment> \<open>\<^verbatim>\<open>KishuForJupyter._checkout_namespace\<close>: update with the target, then delete every
      key the target does not have\<close>
  "checkout_namespace ns target_ns = (ns ++ target_ns) |` dom target_ns"

definition checkout ::
  "'v kishu_jupyter \<Rightarrow> string \<Rightarrow> bool \<Rightarrow> (error + string) \<times> 'v kishu_jupyter" where
  \<comment> \<open>with the default configuration (\<^verbatim>\<open>PLANNER.incremental_cr\<close> off); the timing
      rows written for the experiments are left out\<close>
  "checkout st branch_or_commit_id skip_notebook =
     (let retrieved_branches = get_branch st branch_or_commit_id;
          target =
            (if length retrieved_branches = 1
             then (Some (fst (hd retrieved_branches)), snd (hd retrieved_branches), False)
             else (None, branch_or_commit_id, True))
      in case target of (target_branch, cid0, is_detach) \<Rightarrow>
           (case disambiguate_commit st cid0 of
              Inl e \<Rightarrow> (Inl e, st)
            | Inr cid \<Rightarrow>
                (case get_session_state st cid of
                   Inl e \<Rightarrow> (Inl e, st)
                 | Inr commit_entry_active_vses_string \<Rightarrow>
                     (let current_commit_id = kishu_graph_head st in
                      if is_detach
                      then (Inr (''Checkout '' @ cid @ '' in detach mode.''), st)
                      else (Inr (''Checkout '' @ branch_or_commit_id @ '' ('' @ cid @ '').''), st)))))"

section \<open>The commit graph\<close>

text \<open>
  Modelled from the spec: \<^verbatim>\<open>kishu/commit_graph.py\<close> (\<^verbatim>\<open>CommitInfo\<close>,
  \<^verbatim>\<open>CommitNode\<close>, \<^verbatim>\<open>KishuCommitGraph\<close>) is not among the sources; only its tests
  are. The graph is an append-only store of nodes; a position is the number of the slot a
  node was appended at; every node carries the position of its parent; an index maps a
  commit id to the position of the node last appended under that id.
\<close>

datatype CommitInfo = CommitInfo string string
  \<comment> \<open>Modelled from the spec: the commit id and the parent id, the empty string for no
      parent\<close>

record 'p CommitNode =
  info :: CommitInfo
  position :: 'p
  parent_position :: 'p

text \<open>
  In the graph a position is \<open>Some\<close> slot number, and \<open>None\<close> is \<^verbatim>\<open>UNSET_POSITION\<close>.
\<close>

record KishuCommitGraph =
  nodes :: "nat option CommitNode list"
  index :: "string \<rightharpoonup> nat"
  graph_head :: string

definition new_in_memory :: KishuCommitGraph where
  \<comment> \<open>Modelled from the spec: \<^verbatim>\<open>KishuCommitGraph.new_in_memory()\<close>, the empty graph\<close>
  "new_in_memory = \<lparr>nodes = [], index = Map.empty, graph_head = []\<rparr>"

definition append_node ::
  "KishuCommitGraph \<Rightarrow> string \<Rightarrow> string \<Rightarrow> nat option \<Rightarrow> KishuCommitGraph" where
  \<comment> \<open>Modelled from the spec: a new node goes to the end of the store, the index and the
      head move to it\<close>
  "append_node g c parent pp =
     g\<lparr>nodes := nodes g @
          [\<lparr>info = CommitInfo c parent, position = Some (length (nodes g)),
            parent_position = pp\<rparr>],
       index := (index g)(c \<mapsto> length (nodes g)),
       graph_head := c\<rparr>"

definition step :: "KishuCommitGraph \<Rightarrow> string \<Rightarrow> KishuCommitGraph" where
  \<comment> \<open>Modelled from the spec: \<^verbatim>\<open>step(commit_id)\<close> appends a node whose parent is the
      current HEAD\<close>
  "step g c = append_node g c (graph_head g) (index g (graph_head g))"

definition jump :: "KishuCommitGraph \<Rightarrow> string \<Rightarrow> KishuCommitGraph" where
  \<comment> \<open>Modelled from the spec: \<^verbatim>\<open>jump(commit_id)\<close> sets HEAD to the commit; an unknown
      id is appended as a node with empty parent\<close>
  "jump g c =
     (case index g c of
        Some p \<Rightarrow> g\<lparr>graph_head := c\<rparr>
      | None \<Rightarrow> append_node g c [] None)"

fun walk :: "nat option CommitNode list \<Rightarrow> nat \<Rightarrow> nat option CommitNode list" where
  \<comment> \<open>Modelled from the spec: the node at a position, then its ancestors by their parent
      positions; a parent position always names an earlier slot\<close>
  "walk ns p =
     (if p < length ns
      then ns ! p #
        (case parent_position (ns ! p) of
           None \<Rightarrow> []
         | Some q \<Rightarrow> if q < p then walk ns q else [])
      else [])"

definition list_history :: "KishuCommitGraph \<Rightarrow> string option \<Rightarrow> CommitInfo list" where
  \<comment> \<open>Modelled from the spec: \<^verbatim>\<open>list_history(commit_id?)\<close>, the ancestors newest
      first, from the given commit or from HEAD\<close>
  "list_history g c =
     (case index g (case c of None \<Rightarrow> graph_head g | Some x \<Rightarrow> x) of
        None \<Rightarrow> []
      | Some p \<Rightarrow> map info (walk (nodes g) p))"

datatype graph_op = Step string | Jump string

fun apply_op :: "KishuCommitGraph \<Rightarrow> graph_op \<Rightarrow> KishuCommitGraph" where
  "apply_op g (Step c) = step g c"
| "apply_op g (Jump c) = jump g c"

definition run_ops :: "graph_op list \<Rightarrow> KishuCommitGraph" where
  \<comment> \<open>the graph after a sequence of calls on the empty graph\<close>
  "run_ops ops = foldl apply_op new_in_memory ops"

subsection \<open>Commit nodes in fixed-width slots\<close>











subsection \<open>Invariants of the commit graph\<close>

text \<open>
  What every graph built by \<open>step\<close> and \<open>jump\<close> from the empty graph satisfies: the index
  points into the store, a parent position names an earlier slot, a node without parent
  position has the empty parent id, and HEAD is empty or indexed.
\<close>

definition index_ok :: "KishuCommitGraph \<Rightarrow> bool" where
  "index_ok g = (\<forall>c p. index g c = Some p \<longrightarrow> p < length (nodes g))"

definition node_ok :: "nat \<Rightarrow> nat option CommitNode \<Rightarrow> bool" where
  "node_ok p n =
     ((parent_position n = None \<longrightarrow> (\<exists>c. info n = CommitInfo c []))
      \<and> (\<forall>q. parent_position n = Some q \<longrightarrow> q < p))"

definition parents_ok :: "nat option CommitNode list \<Rightarrow> bool" where
  "parents_ok ns = (\<forall>p < length ns. node_ok p (ns ! p))"

definition head_ok :: "KishuCommitGraph \<Rightarrow> bool" where
  "head_ok g = (graph_head g = [] \<or> graph_head g \<in> dom (index g))"

definition graph_ok :: "KishuCommitGraph \<Rightarrow> bool" where
  "graph_ok g = (index_ok g \<and> parents_ok (nodes g) \<and> head_ok g)"

subsection \<open>Inputs of the properties\<close>



definition session0 :: "int kishu_jupyter" where
  \<comment> \<open>a session in test mode with three commits: HEAD is attached to the branch
      \<^verbatim>\<open>dev\<close> at \<^verbatim>\<open>1:1\<close>, the branch \<^verbatim>\<open>main\<close> is at \<^verbatim>\<open>0:12\<close>\<close>
  "session0 =
     \<lparr>commit_entry = [(''0:1'', [1]), (''0:12'', [2]), (''1:1'', [3])],
      session_state = [(''0:1'', [4]), (''0:12'', [5]), (''1:1'', [6])],
      branch = [(''main'', ''0:12''), (''dev'', ''1:1'')],
      head_path = HeadJson \<lparr>branch_name = Some ''dev'', commit_id = Some ''1:1''\<rparr>,
      user_ns = [''x'' \<mapsto> 1],
      kishu_graph_head = ''1:1''\<rparr>"

definition store0 :: kishu_store where
  \<comment> \<open>a store with HEAD attached to the branch \<^verbatim>\<open>main\<close>\<close>
  "store0 =
     \<lparr>commit_entry = [(''0:1'', [1])],
      session_state = [(''0:1'', [4])],
      branch = [(''main'', ''0:1''), (''dev'', ''0:1'')],
      head_path = HeadJson \<lparr>branch_name = Some ''main'', commit_id = Some ''0:1''\<rparr>\<rparr>"

section \<open>Properties\<close>

subsection \<open>Tables\<close>

lemma sql_count_primary_key:
  "primary_key rows \<Longrightarrow> sql_count rows k = (if k \<in> fst ` set rows then 1 else 0)"
  unfolding primary_key_def sql_count_def
  by (induction rows) (auto simp: image_iff)

lemma sql_count_absent: "k \<notin> fst ` set rows \<Longrightarrow> sql_count rows k = 0"
  unfolding sql_count_def by (induction rows) auto

lemma contains_branch_absent: "b \<notin> fst ` set rows \<Longrightarrow> \<not> contains_branch rows b"
  by (simp add: contains_branch_def sql_count_absent)

lemma contains_branch_iff:
  "primary_key rows \<Longrightarrow> contains_branch rows b \<longleftrightarrow> b \<in> fst ` set rows"
  by (simp add: contains_branch_def sql_count_primary_key)

subsection \<open>Branches\<close>

lemma delete_branch_head:
  "get_head (head_path st) = Inr h \<Longrightarrow> branch_name h = Some b \<Longrightarrow>
   delete_branch st b =
     (Inl (BranchConflictError ''Cannot delete the currently checked-out branch.''), st)"
  by (simp add: delete_branch_def)

lemma delete_branch_absent:
  "get_head (head_path st) = Inr h \<Longrightarrow> branch_name h \<noteq> Some b \<Longrightarrow>
   b \<notin> fst ` set (branch st) \<Longrightarrow>
   delete_branch st b = (Inl (BranchNotFoundError b), st)"
  by (auto simp add: delete_branch_def contains_branch_absent)

lemma rename_branch_absent:
  "old_name \<notin> fst ` set (branch st) \<Longrightarrow>
   rename_branch st old_name new_name = (Inl (BranchNotFoundError old_name), st)"
  by (simp add: rename_branch_def contains_branch_absent)

lemma rename_branch_taken:
  "primary_key (branch st) \<Longrightarrow> old_name \<in> fst ` set (branch st) \<Longrightarrow>
   new_name \<in> fst ` set (branch st) \<Longrightarrow>
   rename_branch st old_name new_name =
     (Inl (BranchConflictError ''The provided new branch name already exists.''), st)"
  by (simp add: rename_branch_def contains_branch_iff)

lemma rename_branch_ok:
  assumes "primary_key (branch st)" "get_head (head_path st) = Inr h"
    "old_name \<in> fst ` set (branch st)" "new_name \<notin> fst ` set (branch st)"
  shows "rename_branch st old_name new_name =
     (Inr (),
      if branch_name h = Some old_name
      then st\<lparr>branch := map (\<lambda>r. if fst r = old_name then (new_name, snd r) else r) (branch st),
              head_path := HeadJson (h\<lparr>branch_name := Some new_name\<rparr>)\<rparr>
      else st\<lparr>branch := map (\<lambda>r. if fst r = old_name then (new_name, snd r) else r) (branch st)\<rparr>)"
  using assms
  by (auto simp add: rename_branch_def contains_branch_iff sql_update_key_def update_head_def Let_def)

text \<open>
  C8. With \<open>h\<close> the head that \<^verbatim>\<open>get_head\<close> reads: \<^verbatim>\<open>delete_branch(b)\<close> fails with a
  conflict error when \<open>b\<close> is the branch of \<open>h\<close>, and with a not-found error when \<open>b\<close> is
  not in the branch table, and the store is the same afterwards in both cases.
  \<^verbatim>\<open>rename_branch(old, new)\<close> fails with not-found when \<open>old\<close> is absent and with a
  conflict when \<open>new\<close> exists already; otherwise the row of \<open>old\<close> carries the name
  \<open>new\<close> afterwards, and when \<open>old\<close> is the branch of \<open>h\<close> the head file holds \<open>h\<close> with
  the branch name \<open>new\<close>.
\<close>

theorem delete_and_rename_branch:
  assumes "primary_key (branch st)" and "get_head (head_path st) = Inr h"
  shows
    "(branch_name h = Some b \<longrightarrow>
        delete_branch st b =
          (Inl (BranchConflictError ''Cannot delete the currently checked-out branch.''), st))
     \<and> (branch_name h \<noteq> Some b \<and> b \<notin> fst ` set (branch st) \<longrightarrow>
          delete_branch st b = (Inl (BranchNotFoundError b), st))
     \<and> (old_name \<notin> fst ` set (branch st) \<longrightarrow>
          rename_branch st old_name new_name = (Inl (BranchNotFoundError old_name), st))
     \<and> (old_name \<in> fst ` set (branch st) \<and> new_name \<in> fst ` set (branch st) \<longrightarrow>
          rename_branch st old_name new_name =
            (Inl (BranchConflictError ''The provided new branch name already exists.''), st))
     \<and> (old_name \<in> fst ` set (branch st) \<and> new_name \<notin> fst ` set (branch st) \<longrightarrow>
          rename_branch st old_name new_name =
            (Inr (),
             if branch_name h = Some old_name
             then st\<lparr>branch :=
                       map (\<lambda>r. if fst r = old_name then (new_name, snd r) else r) (branch st),
                     head_path := HeadJson (h\<lparr>branch_name := Some new_name\<rparr>)\<rparr>
             else st\<lparr>branch :=
                       map (\<lambda>r. if fst r = old_name then (new_name, snd r) else r) (branch st)\<rparr>))"
  using assms delete_branch_head [of st h b] delete_branch_absent [of st h b]
    rename_branch_absent [of old_name st new_name]
    rename_branch_taken [of st old_name new_name]
    rename_branch_ok [of st h old_name new_name]
  by blast

theorem delete_and_rename_branch_witness:
  "primary_key (branch store0)
   \<and> get_head (head_path store0) = Inr \<lparr>branch_name = Some ''main'', commit_id = Some ''0:1''\<rparr>
   \<and> delete_branch store0 ''main'' =
       (Inl (BranchConflictError ''Cannot delete the currently checked-out branch.''), store0)
   \<and> delete_branch store0 ''gone'' = (Inl (BranchNotFoundError ''gone''), store0)
   \<and> rename_branch store0 ''gone'' ''trunk'' = (Inl (BranchNotFoundError ''gone''), store0)
   \<and> rename_branch store0 ''main'' ''dev'' =
       (Inl (BranchConflictError ''The provided new branch name already exists.''), store0)
   \<and> rename_branch store0 ''main'' ''trunk'' =
       (Inr (),
        store0\<lparr>branch := [(''trunk'', ''0:1''), (''dev'', ''0:1'')],
               head_path := HeadJson \<lparr>branch_name = Some ''trunk'', commit_id = Some ''0:1''\<rparr>\<rparr>)"
proof -
  let ?h = "\<lparr>branch_name = Some ''main'', commit_id = Some ''0:1''\<rparr>"
  have pk: "primary_key (branch store0)"
    by (simp add: primary_key_def store0_def)
  have hd: "get_head (head_path store0) = Inr ?h"
    by (simp add: get_head_def store0_def)
  have keys: "fst ` set (branch store0) = {''main'', ''dev''}"
    by (simp add: store0_def)
  note t = delete_and_rename_branch [OF pk hd]
  have "delete_branch store0 ''main'' =
       (Inl (BranchConflictError ''Cannot delete the currently checked-out branch.''), store0)"
    using t [of "''main''"] by simp
  moreover have "delete_branch store0 ''gone'' = (Inl (BranchNotFoundError ''gone''), store0)"
    using t [of "''gone''"] keys by simp
  moreover have "rename_branch store0 ''gone'' ''trunk'' = (Inl (BranchNotFoundError ''gone''), store0)"
    using t [of _ "''gone''" "''trunk''"] keys by simp
  moreover have "rename_branch store0 ''main'' ''dev'' =
       (Inl (BranchConflictError ''The provided new branch name already exists.''), store0)"
    using t [of _ "''main''" "''dev''"] keys by simp
  moreover have "rename_branch store0 ''main'' ''trunk'' =
       (Inr (),
        store0\<lparr>branch := [(''trunk'', ''0:1''), (''dev'', ''0:1'')],
               head_path := HeadJson \<lparr>branch_name = Some ''trunk'', commit_id = Some ''0:1''\<rparr>\<rparr>)"
    using t [of _ "''main''" "''trunk''"] keys by (simp add: store0_def)
  ultimately show ?thesis using pk hd by simp
qed

subsection \<open>Commit ids\<close>

















subsection \<open>Storing a commit\<close>

lemma store_commit_fresh:
  assumes "CommitEntry.commit_id e \<notin> fst ` set (commit_entry st)"
    and "CommitEntry.commit_id e \<notin> fst ` set (session_state st)"
  shows "store_commit de dv st e =
     (Inr (getsizeof (dv (active_vses_string e))),
      st\<lparr>commit_entry := commit_entry st @ [(CommitEntry.commit_id e, de e)],
         session_state :=
           session_state st @ [(CommitEntry.commit_id e, dv (active_vses_string e))]\<rparr>)"
  using assms by (simp add: store_commit_def sql_insert_def Let_def)

lemma store_commit_duplicate:
  assumes "CommitEntry.commit_id e \<in> fst ` set (commit_entry st)"
  shows "store_commit de dv st e = (Inl IntegrityError, st)"
  using assms by (simp add: store_commit_def sql_insert_def Let_def)

lemma store_commit_half:
  assumes "CommitEntry.commit_id e \<notin> fst ` set (commit_entry st)"
    and "CommitEntry.commit_id e \<in> fst ` set (session_state st)"
  shows "store_commit de dv st e =
     (Inl IntegrityError,
      st\<lparr>commit_entry := commit_entry st @ [(CommitEntry.commit_id e, de e)]\<rparr>)"
  using assms by (simp add: store_commit_def sql_insert_def Let_def)

text \<open>
  C9, as the code has it. For a commit entry whose id is a key of neither table,
  \<^verbatim>\<open>store_commit\<close> appends one row to \<^verbatim>\<open>commit_entry\<close> (the id and the serialized
  entry) and one row to \<^verbatim>\<open>session_state\<close> (the id and the serialized active-VS
  fingerprint), and returns \<^verbatim>\<open>sys.getsizeof\<close> of the serialized fingerprint. For an
  id that \<^verbatim>\<open>commit_entry\<close> holds already it raises and leaves the store as it was.
\<close>

theorem store_commit_rows:
  "(CommitEntry.commit_id e \<notin> fst ` set (commit_entry st)
      \<and> CommitEntry.commit_id e \<notin> fst ` set (session_state st) \<longrightarrow>
      store_commit de dv st e =
        (Inr (getsizeof (dv (active_vses_string e))),
         st\<lparr>commit_entry := commit_entry st @ [(CommitEntry.commit_id e, de e)],
            session_state :=
              session_state st @ [(CommitEntry.commit_id e, dv (active_vses_string e))]\<rparr>))
   \<and> (CommitEntry.commit_id e \<in> fst ` set (commit_entry st) \<longrightarrow>
        store_commit de dv st e = (Inl IntegrityError, st))"
  using store_commit_fresh [of e st de dv] store_commit_duplicate [of e st de dv]
  by blast

theorem store_commit_rows_witness:
  "store_commit (\<lambda>e. [7, 8, 9]) (\<lambda>s. [5]) store0
     \<lparr>CommitEntry.commit_id = ''0:2'', kind = jupyter, message = ''[2] x = 1'',
      active_vses_string = Some ''x'', code_version = 0, varset_version = 0,
      execution_count = Some 2\<rparr> =
     (Inr 34,
      store0\<lparr>commit_entry := [(''0:1'', [1]), (''0:2'', [7, 8, 9])],
             session_state := [(''0:1'', [4]), (''0:2'', [5])]\<rparr>)
   \<and> store_commit (\<lambda>e. [7, 8, 9]) (\<lambda>s. [5]) store0
       \<lparr>CommitEntry.commit_id = ''0:1'', kind = manual, message = ''again'',
        active_vses_string = None, code_version = 0, varset_version = 0,
        execution_count = Some 1\<rparr> =
       (Inl IntegrityError, store0)"
proof -
  let ?e2 = "\<lparr>CommitEntry.commit_id = ''0:2'', kind = jupyter, message = ''[2] x = 1'',
      active_vses_string = Some ''x'', code_version = 0, varset_version = 0,
      execution_count = Some 2\<rparr>"
  let ?e1 = "\<lparr>CommitEntry.commit_id = ''0:1'', kind = manual, message = ''again'',
      active_vses_string = None, code_version = 0, varset_version = 0,
      execution_count = Some 1\<rparr>"
  have "store_commit (\<lambda>e. [7, 8, 9]) (\<lambda>s. [5]) store0 ?e2 =
     (Inr 34,
      store0\<lparr>commit_entry := [(''0:1'', [1]), (''0:2'', [7, 8, 9])],
             session_state := [(''0:1'', [4]), (''0:2'', [5])]\<rparr>)"
    using store_commit_rows [of ?e2 store0 "\<lambda>e. [7, 8, 9]" "\<lambda>s. [5]"]
    by (simp add: store0_def getsizeof_def)
  moreover have
    "store_commit (\<lambda>e. [7, 8, 9]) (\<lambda>s. [5]) store0 ?e1 = (Inl IntegrityError, store0)"
    using store_commit_rows [of ?e1 store0 "\<lambda>e. [7, 8, 9]" "\<lambda>s. [5]"]
    by (simp add: store0_def)
  ultimately show ?thesis by simp
qed

text \<open>
  The claim of C9 fails for an entry whose id is stored already (two manual commits in a
  row have the same id in test mode): the insert is refused and no row is added. Where
  the rows are added, the number returned is not the number of bytes written: with an
  entry blob of 3 bytes and a fingerprint blob of 1 byte it is 34.
\<close>

theorem store_commit_counterexample:
  "store_commit (\<lambda>e. [7, 8, 9]) (\<lambda>s. [5]) store0
     \<lparr>CommitEntry.commit_id = ''0:1'', kind = manual, message = ''again'',
      active_vses_string = None, code_version = 0, varset_version = 0,
      execution_count = Some 1\<rparr> =
     (Inl IntegrityError, store0)
   \<and> fst (store_commit (\<lambda>e. [7, 8, 9]) (\<lambda>s. [5]) store0
       \<lparr>CommitEntry.commit_id = ''0:2'', kind = jupyter, message = ''[2] x = 1'',
        active_vses_string = Some ''x'', code_version = 0, varset_version = 0,
        execution_count = Some 2\<rparr>) = Inr 34"
  by (simp add: store_commit_def sql_insert_def store0_def getsizeof_def)

subsection \<open>Checkout\<close>

lemma checkout_store: "snd (checkout st r s) = st"
  by (auto simp: checkout_def Let_def split: sum.splits prod.splits)

lemma checkout_namespace_dom: "dom (checkout_namespace ns target_ns) = dom target_ns"
  by (auto simp: checkout_namespace_def)

lemma checkout_namespace_eq: "checkout_namespace ns target_ns = target_ns"
  by (rule ext) (auto simp: checkout_namespace_def restrict_map_def map_add_def
      split: option.splits)

text \<open>
  C1 says that a checkout replaces the user namespace by the restored one and moves HEAD
  to the target commit, attached when the reference named a branch. The method resolves
  the reference and reads the session state of the target, and returns its message; the
  store, the head file, the graph and the namespace are what they were. Here HEAD is
  attached to \<^verbatim>\<open>dev\<close> at \<^verbatim>\<open>1:1\<close> and the branch \<^verbatim>\<open>main\<close> is at \<^verbatim>\<open>0:12\<close>:
  after \<^verbatim>\<open>checkout("main")\<close> HEAD is still \<^verbatim>\<open>dev\<close> at \<^verbatim>\<open>1:1\<close>, not \<^verbatim>\<open>main\<close> at
  \<^verbatim>\<open>0:12\<close>.
\<close>

theorem checkout_leaves_head_and_namespace:
  "checkout session0 ''main'' False = (Inr ''Checkout main (0:12).'', session0)
   \<and> get_head (head_path (snd (checkout session0 ''main'' False))) =
       Inr \<lparr>branch_name = Some ''dev'', commit_id = Some ''1:1''\<rparr>
   \<and> user_ns (snd (checkout session0 ''main'' False)) = [''x'' \<mapsto> 1]
   \<and> kishu_graph_head (snd (checkout session0 ''main'' False)) = ''1:1''"
proof -
  have "checkout session0 ''main'' False = (Inr ''Checkout main (0:12).'', session0)"
    by (simp add: checkout_def session0_def get_branch_def sql_select_def
        disambiguate_commit_def keys_like_def get_session_state_def like_fold_def)
  then show ?thesis
    by (simp add: session0_def get_head_def)
qed

subsection \<open>The commit graph\<close>

declare walk.simps [simp del]

lemma walk_append: "p < length ns \<Longrightarrow> walk (ns @ ms) p = walk ns p"
proof (induction p rule: less_induct)
  case (less p)
  show ?case
  proof (cases "parent_position (ns ! p)")
    case None
    with less.prems show ?thesis
      by (simp add: walk.simps [of ns p] walk.simps [of "ns @ ms" p] nth_append)
  next
    case (Some q)
    show ?thesis
    proof (cases "q < p")
      case True
      then have "walk (ns @ ms) q = walk ns q"
        using less.IH [of q] less.prems by simp
      with Some True less.prems show ?thesis
        by (simp add: walk.simps [of ns p] walk.simps [of "ns @ ms" p] nth_append)
    next
      case False
      with Some less.prems show ?thesis
        by (simp add: walk.simps [of ns p] walk.simps [of "ns @ ms" p] nth_append)
    qed
  qed
qed

lemma walk_new_node:
  "walk (ns @ [n]) (length ns) =
     n # (case parent_position n of None \<Rightarrow> []
          | Some q \<Rightarrow> if q < length ns then walk ns q else [])"
  by (auto simp: walk.simps [of "ns @ [n]" "length ns"] walk_append split: option.splits)

lemma walk_reaches_root:
  "parents_ok ns \<Longrightarrow> p < length ns \<Longrightarrow>
   walk ns p \<noteq> [] \<and> (\<exists>c. info (last (walk ns p)) = CommitInfo c [])"
proof (induction p rule: less_induct)
  case (less p)
  show ?case
  proof (cases "parent_position (ns ! p)")
    case None
    with less.prems show ?thesis
      by (auto simp: walk.simps [of ns p] parents_ok_def node_ok_def)
  next
    case (Some q)
    with less.prems have q: "q < p"
      by (auto simp: parents_ok_def node_ok_def)
    then have "walk ns q \<noteq> [] \<and> (\<exists>c. info (last (walk ns q)) = CommitInfo c [])"
      using less.IH [of q] less.prems by simp
    with Some q less.prems show ?thesis
      by (simp add: walk.simps [of ns p])
  qed
qed

lemma graph_ok_new: "graph_ok new_in_memory"
  by (simp add: graph_ok_def index_ok_def parents_ok_def head_ok_def new_in_memory_def)

lemma parents_ok_snoc:
  assumes "parents_ok ns" and "node_ok (length ns) n"
  shows "parents_ok (ns @ [n])"
  unfolding parents_ok_def
proof (intro allI impI)
  fix p assume "p < length (ns @ [n])"
  then consider "p < length ns" | "p = length ns" by fastforce
  then show "node_ok p ((ns @ [n]) ! p)"
  proof cases
    case 1
    then show ?thesis using assms(1) by (simp add: parents_ok_def nth_append)
  next
    case 2
    then show ?thesis using assms(2) by simp
  qed
qed

lemma graph_ok_step: "graph_ok g \<Longrightarrow> graph_ok (step g c)"
proof -
  assume ok: "graph_ok g"
  have i: "index_ok (step g c)"
    using ok by (auto simp: graph_ok_def index_ok_def step_def append_node_def less_Suc_eq)
  have h: "head_ok (step g c)"
    by (simp add: head_ok_def step_def append_node_def)
  have "parents_ok (nodes g @ [\<lparr>info = CommitInfo c (graph_head g),
          position = Some (length (nodes g)), parent_position = index g (graph_head g)\<rparr>])"
    using ok
    by (intro parents_ok_snoc) (auto simp: graph_ok_def index_ok_def head_ok_def node_ok_def)
  then have p: "parents_ok (nodes (step g c))"
    by (simp add: step_def append_node_def)
  from i h p show ?thesis by (simp add: graph_ok_def)
qed

lemma graph_ok_jump: "graph_ok g \<Longrightarrow> graph_ok (jump g c)"
proof (cases "index g c")
  case None
  assume ok: "graph_ok g"
  have "parents_ok (nodes g @ [\<lparr>info = CommitInfo c [],
          position = Some (length (nodes g)), parent_position = None\<rparr>])"
    using ok by (intro parents_ok_snoc) (auto simp: graph_ok_def node_ok_def)
  with ok None show ?thesis
    by (auto simp: graph_ok_def jump_def append_node_def index_ok_def head_ok_def less_Suc_eq)
next
  case (Some p)
  assume "graph_ok g"
  with Some show ?thesis
    by (auto simp: graph_ok_def jump_def index_ok_def head_ok_def)
qed

lemma graph_ok_run: "graph_ok (run_ops ops)"
proof (induction ops rule: rev_induct)
  case Nil
  show ?case by (simp add: run_ops_def graph_ok_new)
next
  case (snoc x xs)
  then show ?case
    by (cases x) (simp_all add: run_ops_def graph_ok_step graph_ok_jump)
qed

lemma list_history_step:
  assumes "index_ok g"
  shows "list_history (step g c) None = CommitInfo c (graph_head g) # list_history g None"
    and "list_history (step g c) (Some c) = CommitInfo c (graph_head g) # list_history g None"
  using assms
  by (auto simp: list_history_def step_def append_node_def walk_new_node index_ok_def
      split: option.splits)

lemma list_history_jump_known:
  "index g x = Some p \<Longrightarrow> list_history (jump g x) None = list_history g (Some x)"
  by (simp add: list_history_def jump_def)

lemma list_history_jump_unknown:
  assumes "index_ok g" "index g x = None"
  shows "list_history (jump g x) None = [CommitInfo x []]"
    and "list_history (jump g x) (Some x) = [CommitInfo x []]"
    and "index g c = Some p \<Longrightarrow> list_history (jump g x) (Some c) = list_history g (Some c)"
  using assms
  by (auto simp: list_history_def jump_def append_node_def walk_new_node walk_append index_ok_def)

lemma list_history_rooted:
  assumes "graph_ok g" "index g x = Some p"
  shows "list_history g (Some x) \<noteq> [] \<and> (\<exists>r. last (list_history g (Some x)) = CommitInfo r [])"
proof -
  from assms have "p < length (nodes g)" "parents_ok (nodes g)"
    by (auto simp: graph_ok_def index_ok_def)
  then have "walk (nodes g) p \<noteq> [] \<and> (\<exists>c. info (last (walk (nodes g) p)) = CommitInfo c [])"
    using walk_reaches_root by blast
  with assms(2) show ?thesis
    by (simp add: list_history_def last_map)
qed

lemma zip_snoc_shift:
  "zip (cs @ [c]) (p # cs @ [c]) = zip cs (p # cs) @ [(c, last (p # cs))]"
  by (induction cs arbitrary: p) auto

lemma steps_history:
  "list_history (foldl step new_in_memory cs) None = rev (map2 CommitInfo cs ([] # cs))
   \<and> graph_head (foldl step new_in_memory cs) = last ([] # cs)
   \<and> graph_ok (foldl step new_in_memory cs)"
proof (induction cs rule: rev_induct)
  case Nil
  show ?case by (simp add: graph_ok_new) (simp add: list_history_def new_in_memory_def)
next
  case (snoc c cs)
  then have ok: "index_ok (foldl step new_in_memory cs)" by (simp add: graph_ok_def)
  have "list_history (foldl step new_in_memory (cs @ [c])) None =
        CommitInfo c (last ([] # cs)) # rev (map2 CommitInfo cs ([] # cs))"
    using snoc list_history_step(1) [OF ok, of c] by simp
  moreover have "graph_head (foldl step new_in_memory (cs @ [c])) = c"
    by (simp add: step_def append_node_def)
  moreover have "graph_ok (foldl step new_in_memory (cs @ [c]))"
    using snoc by (simp add: graph_ok_step)
  ultimately show ?case
    using zip_snoc_shift [of cs c "[]"] by simp
qed

lemma run_ops_steps: "run_ops (map Step cs) = foldl step new_in_memory cs"
  by (induction cs rule: rev_induct) (simp_all add: run_ops_def)

text \<open>
  The scenario of \<^verbatim>\<open>TestKishuCommitGraph.test_common\<close>: the histories the test expects
  are the histories of the model.
\<close>

lemma test_common:
  "list_history (run_ops [Step ''1'', Step ''2'', Step ''3'', Step ''4'', Step ''5'',
      Jump ''3'']) None =
     [CommitInfo ''3'' ''2'', CommitInfo ''2'' ''1'', CommitInfo ''1'' []]"
  "list_history (run_ops [Step ''1'', Step ''2'', Step ''3'', Step ''4'', Step ''5'',
      Jump ''3'']) (Some ''5'') =
     [CommitInfo ''5'' ''4'', CommitInfo ''4'' ''3'', CommitInfo ''3'' ''2'',
      CommitInfo ''2'' ''1'', CommitInfo ''1'' []]"
  "list_history (run_ops [Step ''1'', Step ''2'', Step ''3'', Step ''4'', Step ''5'',
      Jump ''3'', Step ''3_1'', Step ''3_2'', Jump ''A'', Step ''A_A'', Step ''A_B'']) None =
     [CommitInfo ''A_B'' ''A_A'', CommitInfo ''A_A'' ''A'', CommitInfo ''A'' []]"
  "list_history (run_ops [Step ''1'', Step ''2'', Step ''3'', Step ''4'', Step ''5'',
      Jump ''3'', Step ''3_1'', Step ''3_2'', Jump ''A'', Step ''A_A'', Step ''A_B''])
      (Some ''3_2'') =
     [CommitInfo ''3_2'' ''3_1'', CommitInfo ''3_1'' ''3'', CommitInfo ''3'' ''2'',
      CommitInfo ''2'' ''1'', CommitInfo ''1'' []]"
  by (simp_all add: run_ops_def list_history_def step_def jump_def append_node_def
      new_in_memory_def walk.simps)

text \<open>
  C4. After \<^verbatim>\<open>step(c_1)\<close> ... \<^verbatim>\<open>step(c_n)\<close> on the empty graph, \<^verbatim>\<open>list_history()\<close> is
  the \<open>c_i\<close> newest first, each with the parent \<open>c_(i-1)\<close>, and \<open>c_1\<close> with the empty
  parent. On a graph built by any calls: after \<^verbatim>\<open>jump(x)\<close> to a known commit,
  \<^verbatim>\<open>step(y)\<close> gives \<open>y\<close> the parent \<open>x\<close>, and the history of \<open>y\<close> is \<open>y\<close> before the
  history of \<open>x\<close> and ends in a node with the empty parent; \<^verbatim>\<open>jump(x)\<close> to an unknown
  id appends a node with the empty parent whose history is that node alone, and the
  history of every commit known before is the same as before.
\<close>

theorem commit_graph_history:
  "list_history (run_ops (map Step cs)) None = rev (map2 CommitInfo cs ([] # cs))
   \<and> (index (run_ops ops) x \<noteq> None \<longrightarrow>
        list_history (step (jump (run_ops ops) x) y) (Some y) =
          CommitInfo y x # list_history (run_ops ops) (Some x)
        \<and> (\<exists>r. last (list_history (step (jump (run_ops ops) x) y) (Some y)) =
              CommitInfo r []))
   \<and> (index (run_ops ops) x = None \<longrightarrow>
        nodes (jump (run_ops ops) x) =
          nodes (run_ops ops) @
            [\<lparr>info = CommitInfo x [], position = Some (length (nodes (run_ops ops))),
              parent_position = None\<rparr>]
        \<and> list_history (jump (run_ops ops) x) None = [CommitInfo x []]
        \<and> list_history (jump (run_ops ops) x) (Some x) = [CommitInfo x []]
        \<and> (\<forall>c. index (run_ops ops) c \<noteq> None \<longrightarrow>
              list_history (jump (run_ops ops) x) (Some c) =
                list_history (run_ops ops) (Some c)))"
proof (intro conjI impI allI)
  show "list_history (run_ops (map Step cs)) None = rev (map2 CommitInfo cs ([] # cs))"
    using steps_history [of cs] by (simp add: run_ops_steps)
next
  assume known: "index (run_ops ops) x \<noteq> None"
  then obtain p where p: "index (run_ops ops) x = Some p" by blast
  have ok: "graph_ok (jump (run_ops ops) x)"
    by (simp add: graph_ok_run graph_ok_jump)
  then have "index_ok (jump (run_ops ops) x)" by (simp add: graph_ok_def)
  then have "list_history (step (jump (run_ops ops) x) y) (Some y) =
        CommitInfo y (graph_head (jump (run_ops ops) x)) #
          list_history (jump (run_ops ops) x) None"
    by (rule list_history_step(2))
  moreover have "graph_head (jump (run_ops ops) x) = x"
    using p by (simp add: jump_def)
  ultimately show eq: "list_history (step (jump (run_ops ops) x) y) (Some y) =
        CommitInfo y x # list_history (run_ops ops) (Some x)"
    using list_history_jump_known [OF p] by simp
  have "list_history (run_ops ops) (Some x) \<noteq> []
        \<and> (\<exists>r. last (list_history (run_ops ops) (Some x)) = CommitInfo r [])"
    using graph_ok_run p by (rule list_history_rooted)
  then show "\<exists>r. last (list_history (step (jump (run_ops ops) x) y) (Some y)) =
        CommitInfo r []"
    using eq by simp
next
  assume new: "index (run_ops ops) x = None"
  have ok: "index_ok (run_ops ops)"
    using graph_ok_run [of ops] by (simp add: graph_ok_def)
  show "nodes (jump (run_ops ops) x) =
          nodes (run_ops ops) @
            [\<lparr>info = CommitInfo x [], position = Some (length (nodes (run_ops ops))),
              parent_position = None\<rparr>]"
    using new by (simp add: jump_def append_node_def)
  show "list_history (jump (run_ops ops) x) None = [CommitInfo x []]"
    using ok new by (rule list_history_jump_unknown(1))
  show "list_history (jump (run_ops ops) x) (Some x) = [CommitInfo x []]"
    using ok new by (rule list_history_jump_unknown(2))
  fix c assume "index (run_ops ops) c \<noteq> None"
  then obtain p where "index (run_ops ops) c = Some p" by blast
  then show "list_history (jump (run_ops ops) x) (Some c) = list_history (run_ops ops) (Some c)"
    using list_history_jump_unknown(3) [OF ok new] by blast
qed

theorem commit_graph_history_witness:
  "list_history (run_ops (map Step [''1'', ''2'', ''3''])) None =
     [CommitInfo ''3'' ''2'', CommitInfo ''2'' ''1'', CommitInfo ''1'' []]
   \<and> list_history
       (step (jump (run_ops [Step ''1'', Step ''2'', Step ''3'']) ''1'') ''2b'') (Some ''2b'') =
     [CommitInfo ''2b'' ''1'', CommitInfo ''1'' []]
   \<and> list_history (jump (run_ops [Step ''1'', Step ''2'', Step ''3'']) ''A'') None =
     [CommitInfo ''A'' []]
   \<and> list_history (jump (run_ops [Step ''1'', Step ''2'', Step ''3'']) ''A'') (Some ''3'') =
     [CommitInfo ''3'' ''2'', CommitInfo ''2'' ''1'', CommitInfo ''1'' []]"
proof -
  let ?g = "run_ops [Step ''1'', Step ''2'', Step ''3'']"
  have known: "index ?g ''1'' \<noteq> None" "index ?g ''3'' \<noteq> None"
    by (simp_all add: run_ops_def step_def append_node_def new_in_memory_def)
  have new: "index ?g ''A'' = None"
    by (simp add: run_ops_def step_def append_node_def new_in_memory_def)
  have h1: "list_history ?g (Some ''1'') = [CommitInfo ''1'' []]"
    by (simp add: run_ops_def list_history_def step_def append_node_def new_in_memory_def
        walk.simps)
  have h3: "list_history ?g (Some ''3'') =
      [CommitInfo ''3'' ''2'', CommitInfo ''2'' ''1'', CommitInfo ''1'' []]"
    by (simp add: run_ops_def list_history_def step_def append_node_def new_in_memory_def
        walk.simps)
  have "list_history (run_ops (map Step [''1'', ''2'', ''3''])) None =
     [CommitInfo ''3'' ''2'', CommitInfo ''2'' ''1'', CommitInfo ''1'' []]"
    using commit_graph_history [of "[''1'', ''2'', ''3'']"] by simp
  moreover have "list_history (step (jump ?g ''1'') ''2b'') (Some ''2b'') =
     [CommitInfo ''2b'' ''1'', CommitInfo ''1'' []]"
    using commit_graph_history [of _ "[Step ''1'', Step ''2'', Step ''3'']" "''1''" "''2b''"]
      known(1) h1 by simp
  moreover have "list_history (jump ?g ''A'') None = [CommitInfo ''A'' []]"
    using commit_graph_history [of _ "[Step ''1'', Step ''2'', Step ''3'']" "''A''"] new
    by simp
  moreover have "list_history (jump ?g ''A'') (Some ''3'') =
     [CommitInfo ''3'' ''2'', CommitInfo ''2'' ''1'', CommitInfo ''1'' []]"
    using commit_graph_history [of _ "[Step ''1'', Step ''2'', Step ''3'']" "''A''"] new
      known(2) h3 by simp
  ultimately show ?thesis by simp
qed

subsection \<open>Commit nodes in fixed-width slots\<close>









subsection \<open>The head file\<close>

text \<open>
  The head that the operations on branches read is the head that \<^verbatim>\<open>get_head\<close> returns
  on the file, and they fail where it raises.
\<close>

lemma get_head_abstraction:
  "get_head (head_file_of from_json file) =
     (case get_head_file from_json file of Inl e \<Rightarrow> Inl HeadDecodeError | Inr h \<Rightarrow> Inr h)"
  by (auto simp: get_head_def head_file_of_def get_head_file_def split: sum.splits)

lemma utf8_decode_bad_byte:
  "b \<in> set bs \<Longrightarrow> 245 \<le> b \<Longrightarrow> utf8_decode bs = None"
proof (induction bs rule: utf8_decode.induct)
  case 1
  then show ?case by simp
next
  case (2 b0 bs)
  show ?case
  proof (cases "utf8_decode (b0 # bs)")
    case None
    then show ?thesis .
  next
    case (Some cps)
    then show ?thesis
      using "2.prems" "2.IH"
      by (auto simp: continuation_def split: if_splits list.splits)
  qed
qed

lemma get_head_file_bad_byte:
  "b \<in> set data \<Longrightarrow> 245 \<le> unat b \<Longrightarrow>
   get_head_file from_json (Some data) = Inl UnicodeDecodeError"
proof -
  assume "b \<in> set data" "245 \<le> unat b"
  then have "utf8_decode (map unat data) = None"
    using utf8_decode_bad_byte [of "unat b" "map unat data"] by simp
  then show ?thesis by (simp add: get_head_file_def read_text_def)
qed

lemma get_head_file_missing:
  "get_head_file from_json None = Inr \<lparr>branch_name = None, commit_id = None\<rparr>"
  by (simp add: get_head_file_def read_text_def)

lemma get_head_file_not_text:
  "utf8_decode (map unat data) = None \<Longrightarrow>
   get_head_file from_json (Some data) = Inl UnicodeDecodeError"
  by (simp add: get_head_file_def read_text_def)

lemma get_head_file_text:
  "utf8_decode (map unat data) = Some cps \<Longrightarrow>
   get_head_file from_json (Some data) =
     (case from_json (universal_newlines False cps) of
        Inl e \<Rightarrow>
          if e = FileNotFoundError \<or> e = JSONDecodeError
          then Inr \<lparr>branch_name = None, commit_id = None\<rparr>
          else Inl e
      | Inr h \<Rightarrow> Inr h)"
  by (simp add: get_head_file_def read_text_def)

text \<open>
  C10, as the code has it. \<^verbatim>\<open>get_head\<close> returns the head with no branch and no commit
  when the head file is missing, and when the file is text on which
  \<^verbatim>\<open>HeadBranch.from_json\<close> raises \<^verbatim>\<open>JSONDecodeError\<close>. It is not total: on bytes that
  are not UTF-8 text, as every content with a byte from \<^verbatim>\<open>f5\<close> to \<^verbatim>\<open>ff\<close> is, it raises
  \<^verbatim>\<open>UnicodeDecodeError\<close>, and every other exception of
  \<^verbatim>\<open>HeadBranch.from_json\<close> passes through it. Where \<^verbatim>\<open>HeadBranch.from_json\<close> returns a
  head, that head is returned.
\<close>

theorem get_head_file_cases:
  "get_head_file from_json None = Inr \<lparr>branch_name = None, commit_id = None\<rparr>
   \<and> (utf8_decode (map unat data) = Some cps
        \<and> from_json (universal_newlines False cps) = Inl JSONDecodeError \<longrightarrow>
        get_head_file from_json (Some data) = Inr \<lparr>branch_name = None, commit_id = None\<rparr>)
   \<and> (utf8_decode (map unat data) = None \<longrightarrow>
        get_head_file from_json (Some data) = Inl UnicodeDecodeError)
   \<and> ((\<exists>b \<in> set data. 245 \<le> unat b) \<longrightarrow>
        get_head_file from_json (Some data) = Inl UnicodeDecodeError)
   \<and> (utf8_decode (map unat data) = Some cps
        \<and> from_json (universal_newlines False cps) = Inl e
        \<and> e \<noteq> JSONDecodeError \<and> e \<noteq> FileNotFoundError \<longrightarrow>
        get_head_file from_json (Some data) = Inl e)
   \<and> (utf8_decode (map unat data) = Some cps
        \<and> from_json (universal_newlines False cps) = Inr h \<longrightarrow>
        get_head_file from_json (Some data) = Inr h)"
  using get_head_file_missing [of from_json] get_head_file_not_text [of data from_json]
    get_head_file_text [of data cps from_json] get_head_file_bad_byte [of _ data from_json]
  by (intro conjI impI) (simp_all, blast)

theorem get_head_file_cases_witness:
  "get_head_file (\<lambda>s. if s = [123, 125] then Inl KeyError else Inl JSONDecodeError) None =
     Inr \<lparr>branch_name = None, commit_id = None\<rparr>
   \<and> get_head_file (\<lambda>s. if s = [123, 125] then Inl KeyError else Inl JSONDecodeError)
       (Some [104, 101, 97, 100]) =
     Inr \<lparr>branch_name = None, commit_id = None\<rparr>
   \<and> get_head_file (\<lambda>s. if s = [123, 125] then Inl KeyError else Inl JSONDecodeError)
       (Some [255, 254]) =
     Inl UnicodeDecodeError
   \<and> get_head_file (\<lambda>s. if s = [123, 125] then Inl KeyError else Inl JSONDecodeError)
       (Some [123, 125, 245]) =
     Inl UnicodeDecodeError
   \<and> get_head_file (\<lambda>s. if s = [123, 125] then Inl KeyError else Inl JSONDecodeError)
       (Some [123, 125]) =
     Inl KeyError
   \<and> get_head_file (\<lambda>s. Inr \<lparr>branch_name = Some ''main'', commit_id = Some ''0:1''\<rparr>)
       (Some [123, 125]) =
     Inr \<lparr>branch_name = Some ''main'', commit_id = Some ''0:1''\<rparr>"
proof -
  let ?fj = "\<lambda>s::str. if s = [123, 125] then Inl KeyError
                      else (Inl JSONDecodeError :: py_exception + HeadBranch)"
  let ?ok = "\<lambda>s::str. (Inr \<lparr>branch_name = Some ''main'', commit_id = Some ''0:1''\<rparr>
                        :: py_exception + HeadBranch)"
  have d1: "utf8_decode (map unat [104, 101, 97, 100 :: 8 word]) = Some [104, 101, 97, 100]"
    by simp
  have d2: "utf8_decode (map unat [255, 254 :: 8 word]) = None"
    by simp
  have d3: "utf8_decode (map unat [123, 125 :: 8 word]) = Some [123, 125]"
    by simp
  have "get_head_file ?fj None = Inr \<lparr>branch_name = None, commit_id = None\<rparr>"
    using get_head_file_cases [of ?fj] by simp
  moreover have "get_head_file ?fj (Some [104, 101, 97, 100]) =
      Inr \<lparr>branch_name = None, commit_id = None\<rparr>"
    using get_head_file_cases [of ?fj "[104, 101, 97, 100]" "[104, 101, 97, 100]"] d1 by simp
  moreover have "get_head_file ?fj (Some [255, 254]) = Inl UnicodeDecodeError"
    using get_head_file_cases [of ?fj "[255, 254]"] d2 by simp
  moreover have "get_head_file ?fj (Some [123, 125, 245]) = Inl UnicodeDecodeError"
    using get_head_file_cases [of ?fj "[123, 125, 245]"] by simp
  moreover have "get_head_file ?fj (Some [123, 125]) = Inl KeyError"
    using get_head_file_cases [of ?fj "[123, 125]" "[123, 125]" KeyError] d3 by simp
  moreover have "get_head_file ?ok (Some [123, 125]) =
      Inr \<lparr>branch_name = Some ''main'', commit_id = Some ''0:1''\<rparr>"
    using get_head_file_cases [of ?ok "[123, 125]" "[123, 125]" _
        "\<lparr>branch_name = Some ''main'', commit_id = Some ''0:1''\<rparr>"] d3 by simp
  ultimately show ?thesis by simp
qed

text \<open>
  The claim of C10 fails on contents that are not valid JSON because they are not text: on
  the two bytes \<^verbatim>\<open>ff fe\<close> the read raises \<^verbatim>\<open>UnicodeDecodeError\<close>, which the
  \<^verbatim>\<open>except\<close> clause does not name, also with a decoder that would reject every text.
\<close>

theorem get_head_not_text_counterexample:
  "utf8_decode (map unat [255, 254 :: 8 word]) = None
   \<and> get_head_file (\<lambda>s. Inl JSONDecodeError) (Some [255, 254]) = Inl UnicodeDecodeError"
  by (simp add: get_head_file_def read_text_def)


end
